theory Spec2Isabelle
  imports Main
begin

section \<open>The PixelStreaming class (Frontend/library/src/PixelStreaming/PixelStreaming.ts)\<close>

text \<open>
  The class \<^verbatim>\<open>PixelStreaming\<close> is the event-facing front of the browser library: it owns the
  configuration object, a \<^verbatim>\<open>WebRtcPlayerController\<close> and an event emitter. Every method
  mutates fields and calls collaborators, so the embedding passes one state record through
  each method. JavaScript numbers that hold settings and clock readings are integers here:
  fractional values, and magnitudes beyond \<open>2^53\<close> where JavaScript rounds, are outside the
  model, and nothing proved below depends on the products that the bitrate listeners send.
\<close>

subsection \<open>Configuration identifiers and message payloads\<close>

text \<open>The members of \<^verbatim>\<open>Flags\<close> and \<^verbatim>\<open>NumericParameters\<close> that PixelStreaming.ts names.\<close>

datatype Flags = AutoConnect | IsQualityController | AFKDetection | MatchViewportResolution
  | HoveringMouseMode

datatype NumericParameters = MinQP | MaxQP | WebRTCFPS | WebRTCMinBitrate | WebRTCMaxBitrate

record EncoderSettings =
  encMinQP :: int
  encMaxQP :: int

record WebRTCSettings =
  FPS :: int
  MinBitrate :: int
  MaxBitrate :: int

text \<open>\<^verbatim>\<open>AllowPixelStreamingCommands\<close> may be absent from the message (\<open>None\<close>).\<close>

record PixelStreamingSettings =
  AllowPixelStreamingCommands :: "bool option"

text \<open>Each group of an initial-settings message is optional: the code tests it for truthiness.\<close>

record InitialSettings =
  pixelStreamingSettings :: "PixelStreamingSettings option"
  encoderSettings :: "EncoderSettings option"
  webRTCSettings :: "WebRTCSettings option"

text \<open>
  The session part of a statistics snapshot, filled by \<^verbatim>\<open>handleSessionStatistics\<close>:
  the run time in milliseconds (\<open>None\<close> when it cannot be computed), whether input control
  is held (\<open>None\<close> before the streamer has said so) and the average encoder QP.
\<close>

record SessionStats =
  runTime :: "int option"
  controlsStreamInput :: "bool option"
  videoEncoderAvgQP :: int

record AggregatedStats =
  candidatePairBytesReceived :: int
  sessionStats :: "SessionStats option"

text \<open>A JavaScript value typed \<^verbatim>\<open>string\<close> that the code also tests against undefined and null.\<close>

datatype JsString = JsUndefined | JsNull | JsStr string

subsection \<open>Events and calls to collaborators\<close>

datatype PixelStreamingEvent =
    InitialSettingsEvent InitialSettings
  | LatencyTestResultEvent
  | StatsReceivedEvent AggregatedStats
  | StreamLoadingEvent
  | VideoEncoderAvgQPEvent int
  | VideoInitializedEvent
  | WebRtcAutoConnectEvent
  | WebRtcConnectedEvent
  | WebRtcConnectingEvent
  | WebRtcDisconnectedEvent string bool
  | WebRtcFailedEvent
  | WebRtcSdpEvent
  | SettingsChangedFlagEvent Flags bool
  | SettingsChangedNumberEvent NumericParameters int
  | StreamerListMessageEvent "string list" "string option"
  | DataChannelOpenEvent

text \<open>
  What the controller is asked to do, in order. The first group are the methods of
  \<^verbatim>\<open>WebRtcPlayerController\<close> and \<^verbatim>\<open>Config\<close> that PixelStreaming.ts calls for their effect;
  the second group are the operations of the session controller on the rendezvous channel,
  the peer session and the side channel.
\<close>

datatype Call =
    SendRequestQualityControlOwnership
  | SetAfkEnabled bool
  | UpdateVideoStreamSize
  | SetFlagLabel Flags string
  | ActivateRegisterMouse
  | SendEncoderSettings EncoderSettings
  | SendWebRtcSettings WebRTCSettings
  | SendLatencyTest
  | SendShowFps
  | SendIframeRequest
  | PlayStream
  | SetPreferredCodec
  | ResizePlayerStyle
  | OpenRendezvousChannel
  | CloseRendezvousChannel
  | SendListStreamers
  | SendSubscribe string
  | SendAnswer
  | CreatePeerSession
  | ClosePeerSession
  | SetRemoteDescription string
  | AddIceCandidate string
  | WriteConsoleCommand string

datatype SessionState = Idle | SignalingConnecting | AwaitingStreamerList | Subscribed
  | Negotiating | Connected | Closing | Disconnected

subsection \<open>The state\<close>

text \<open>
  The first group of fields belongs to \<^verbatim>\<open>PixelStreaming\<close> and its \<^verbatim>\<open>config\<close>; the second
  group is what PixelStreaming.ts reads from and writes to its \<^verbatim>\<open>webRtcController\<close>; the
  third group is the session controller's own state, as section 3 of the specification
  lists it. \<open>dispatched\<close> is every event handed to the event emitter, \<open>calls\<close> every call
  made on a collaborator, \<open>logged\<close> every message given to the logger.
\<close>

record PixelStreaming =
  numericSettings :: "NumericParameters \<Rightarrow> int"
  flagSettings :: "Flags \<Rightarrow> bool"
  showActionOrErrorOnDisconnect :: bool
  videoStartTime :: "int option"
  inputController :: "bool option"
  dispatched :: "PixelStreamingEvent list"
  logged :: "string list"
  isQualityController :: bool
  disconnectMessageOverride :: JsString
  videoReady :: bool
  videoAvgQp :: int
  calls :: "Call list"
  session :: SessionState
  connectionUp :: bool
  peerSession :: bool
  wasConnected :: bool
  streamerDirectory :: "string list"
  selectedStreamer :: "string option"
  remoteDescription :: "string option"
  bufferedCandidates :: "string list"
  sideChannelOpen :: bool
  statsTimer :: "nat option"
  reconnectTimer :: "nat option"
  clock :: int

definition dispatchEvent :: "PixelStreamingEvent \<Rightarrow> PixelStreaming \<Rightarrow> PixelStreaming" where
  "dispatchEvent e s = s\<lparr>dispatched := dispatched s @ [e]\<rparr>"

definition call :: "Call \<Rightarrow> PixelStreaming \<Rightarrow> PixelStreaming" where
  "call c s = s\<lparr>calls := calls s @ [c]\<rparr>"

definition Logger_Log :: "string \<Rightarrow> PixelStreaming \<Rightarrow> PixelStreaming" where
  "Logger_Log m s = s\<lparr>logged := logged s @ [m]\<rparr>"

subsection \<open>The configuration object\<close>

definition getNumericSettingValue :: "NumericParameters \<Rightarrow> PixelStreaming \<Rightarrow> int" where
  "getNumericSettingValue p s = numericSettings s p"

definition isFlagEnabled :: "Flags \<Rightarrow> PixelStreaming \<Rightarrow> bool" where
  "isFlagEnabled f s = flagSettings s f"

definition setFlagLabel :: "Flags \<Rightarrow> string \<Rightarrow> PixelStreaming \<Rightarrow> PixelStreaming" where
  "setFlagLabel f l s = call (SetFlagLabel f l) s"

text \<open>
  The listeners that \<^verbatim>\<open>configureSettings\<close> registers with
  \<^verbatim>\<open>_addOnSettingChangedListener\<close>, one equation per flag. \<^verbatim>\<open>AutoConnect\<close> has none.
\<close>

fun onSettingChanged :: "Flags \<Rightarrow> bool \<Rightarrow> PixelStreaming \<Rightarrow> PixelStreaming" where
  "onSettingChanged IsQualityController wantsQualityController s =
     (if wantsQualityController = True \<and> \<not> isQualityController s
      then call SendRequestQualityControlOwnership s else s)"
| "onSettingChanged AFKDetection isAFKEnabled s = call (SetAfkEnabled isAFKEnabled) s"
| "onSettingChanged MatchViewportResolution b s = call UpdateVideoStreamSize s"
| "onSettingChanged HoveringMouseMode isHoveringMouse s =
     call ActivateRegisterMouse
       (setFlagLabel HoveringMouseMode
          (''Control Scheme: '' @ (if isHoveringMouse then ''Hovering'' else ''Locked'') @ '' Mouse'') s)"
| "onSettingChanged AutoConnect b s = s"

text \<open>
  The listeners registered with \<^verbatim>\<open>_addOnNumericSettingChangedListener\<close>. Each sends the
  settings between two log lines. The listener of the option \<^verbatim>\<open>PreferredCodec\<close> is left
  out: option settings are not part of the state.
\<close>

definition sendEncoderSettingsLogged :: "EncoderSettings \<Rightarrow> PixelStreaming \<Rightarrow> PixelStreaming" where
  "sendEncoderSettingsLogged encode s =
     Logger_Log ''-------------------------------------------''
       (call (SendEncoderSettings encode)
          (Logger_Log ''--------  Sending encoder settings  --------'' s))"

definition sendWebRtcSettingsLogged :: "WebRTCSettings \<Rightarrow> PixelStreaming \<Rightarrow> PixelStreaming" where
  "sendWebRtcSettingsLogged webRtcSettings s =
     Logger_Log ''-------------------------------------------''
       (call (SendWebRtcSettings webRtcSettings)
          (Logger_Log ''--------  Sending web rtc settings  --------'' s))"

fun onNumericSettingChanged :: "NumericParameters \<Rightarrow> int \<Rightarrow> PixelStreaming \<Rightarrow> PixelStreaming" where
  "onNumericSettingChanged MinQP newValue s =
     sendEncoderSettingsLogged
       \<lparr>encMinQP = newValue, encMaxQP = getNumericSettingValue MaxQP s\<rparr> s"
| "onNumericSettingChanged MaxQP newValue s =
     sendEncoderSettingsLogged
       \<lparr>encMinQP = getNumericSettingValue MinQP s, encMaxQP = newValue\<rparr> s"
| "onNumericSettingChanged WebRTCMinBitrate newValue s =
     sendWebRtcSettingsLogged
       \<lparr>FPS = getNumericSettingValue WebRTCFPS s,
        MinBitrate = newValue * 1000,
        MaxBitrate = getNumericSettingValue WebRTCMaxBitrate s * 1000\<rparr> s"
| "onNumericSettingChanged WebRTCMaxBitrate newValue s =
     sendWebRtcSettingsLogged
       \<lparr>FPS = getNumericSettingValue WebRTCFPS s,
        MinBitrate = getNumericSettingValue WebRTCMinBitrate s * 1000,
        MaxBitrate = newValue * 1000\<rparr> s"
| "onNumericSettingChanged WebRTCFPS newValue s =
     sendWebRtcSettingsLogged
       \<lparr>FPS = newValue,
        MinBitrate = getNumericSettingValue WebRTCMinBitrate s * 1000,
        MaxBitrate = getNumericSettingValue WebRTCMaxBitrate s * 1000\<rparr> s"

text \<open>
  Modelled from the spec: \<^verbatim>\<open>Config.setFlagEnabled\<close> and \<^verbatim>\<open>Config.setNumericSetting\<close>
  (Config/Config.ts is not among the sources). Section 9 describes the configuration as an
  object with a change-notification capability, section 4.3 a setting as observed by the
  controller: a write stores the value, runs the listener registered for the setting, and,
  as \<^verbatim>\<open>_registerOnChangeEvents\<close> and the \<^verbatim>\<open>settingsChanged\<close> test have it, emits a
  settings-changed event.
\<close>

definition setFlagEnabled :: "Flags \<Rightarrow> bool \<Rightarrow> PixelStreaming \<Rightarrow> PixelStreaming" where
  "setFlagEnabled f v s =
     dispatchEvent (SettingsChangedFlagEvent f v)
       (onSettingChanged f v (s\<lparr>flagSettings := (flagSettings s)(f := v)\<rparr>))"

definition setNumericSetting :: "NumericParameters \<Rightarrow> int \<Rightarrow> PixelStreaming \<Rightarrow> PixelStreaming" where
  "setNumericSetting p v s =
     dispatchEvent (SettingsChangedNumberEvent p v)
       (onNumericSettingChanged p v (s\<lparr>numericSettings := (numericSettings s)(p := v)\<rparr>))"

subsection \<open>Callbacks of PixelStreaming that only touch its own fields\<close>

definition onInputControlOwnership :: "bool \<Rightarrow> PixelStreaming \<Rightarrow> PixelStreaming" where
  "onInputControlOwnership inputControlOwnership s =
     s\<lparr>inputController := Some inputControlOwnership\<rparr>"

definition onWebRtcAutoConnect :: "PixelStreaming \<Rightarrow> PixelStreaming" where
  "onWebRtcAutoConnect s =
     (dispatchEvent WebRtcAutoConnectEvent s)\<lparr>showActionOrErrorOnDisconnect := True\<rparr>"

definition onWebRtcSdp :: "PixelStreaming \<Rightarrow> PixelStreaming" where
  "onWebRtcSdp s = dispatchEvent WebRtcSdpEvent s"

definition onStreamLoading :: "PixelStreaming \<Rightarrow> PixelStreaming" where
  "onStreamLoading s = dispatchEvent StreamLoadingEvent s"

text \<open>
  \<^verbatim>\<open>_onDisconnect\<close>: the override replaces the event text only when it is a non-empty
  string, and is then reset to the empty string; the flag is put back to true.
  \<open>overrideIsSet\<close> is the guard of the method: the override differs from the empty string,
  from undefined and from null.
\<close>

definition overrideIsSet :: "JsString \<Rightarrow> bool" where
  "overrideIsSet v = (v \<noteq> JsStr [] \<and> v \<noteq> JsUndefined \<and> v \<noteq> JsNull)"

definition onDisconnect :: "string \<Rightarrow> PixelStreaming \<Rightarrow> PixelStreaming" where
  "onDisconnect eventString s =
     (let (eventString1, s1) =
            (if overrideIsSet (disconnectMessageOverride s)
             then (case disconnectMessageOverride s of JsStr m \<Rightarrow> m | _ \<Rightarrow> eventString,
                   s\<lparr>disconnectMessageOverride := JsStr []\<rparr>)
             else (eventString, s));
          s2 = dispatchEvent
                 (WebRtcDisconnectedEvent eventString1 (showActionOrErrorOnDisconnect s1)) s1
      in if showActionOrErrorOnDisconnect s2 = False
         then s2\<lparr>showActionOrErrorOnDisconnect := True\<rparr> else s2)"

definition onWebRtcConnecting :: "PixelStreaming \<Rightarrow> PixelStreaming" where
  "onWebRtcConnecting s = dispatchEvent WebRtcConnectingEvent s"

definition onWebRtcConnected :: "PixelStreaming \<Rightarrow> PixelStreaming" where
  "onWebRtcConnected s = dispatchEvent WebRtcConnectedEvent s"

definition onWebRtcFailed :: "PixelStreaming \<Rightarrow> PixelStreaming" where
  "onWebRtcFailed s = dispatchEvent WebRtcFailedEvent s"

text \<open>The argument \<open>now\<close> is the reading of \<^verbatim>\<open>Date.now()\<close>.\<close>

definition onVideoInitialized :: "int \<Rightarrow> PixelStreaming \<Rightarrow> PixelStreaming" where
  "onVideoInitialized now s = (dispatchEvent VideoInitializedEvent s)\<lparr>videoStartTime := Some now\<rparr>"

definition onLatencyTestResult :: "PixelStreaming \<Rightarrow> PixelStreaming" where
  "onLatencyTestResult s = dispatchEvent LatencyTestResultEvent s"

text \<open>
  Modelled from the spec: \<^verbatim>\<open>AggregatedStats.handleSessionStatistics\<close>
  (PeerConnectionController/AggregatedStats.ts is not among the sources). Section 4.4: the
  session duration is \<open>now - videoStartTime\<close>, and the snapshot says whether input control
  is held. \<open>now\<close> is the clock reading taken inside the method; a start time that was never
  set leaves the duration undefined.
\<close>

definition handleSessionStatistics ::
  "int \<Rightarrow> int option \<Rightarrow> bool option \<Rightarrow> int \<Rightarrow> AggregatedStats \<Rightarrow> AggregatedStats" where
  "handleSessionStatistics now startTime inputCtl avgQp videoStats =
     videoStats\<lparr>sessionStats := Some
       \<lparr>runTime = (case startTime of None \<Rightarrow> None | Some t \<Rightarrow> Some (now - t)),
        controlsStreamInput = inputCtl,
        videoEncoderAvgQP = avgQp\<rparr>\<rparr>"

text \<open>
  \<^verbatim>\<open>_onVideoStats\<close>. \<^verbatim>\<open>!this._videoStartTime\<close> holds for undefined and for the number 0.
  \<open>now\<close> is the reading of \<^verbatim>\<open>Date.now()\<close> in the method, \<open>nowStats\<close> the one taken
  inside \<^verbatim>\<open>handleSessionStatistics\<close>.
\<close>

definition onVideoStats :: "int \<Rightarrow> int \<Rightarrow> AggregatedStats \<Rightarrow> PixelStreaming \<Rightarrow> PixelStreaming" where
  "onVideoStats now nowStats videoStats s =
     (let s1 = (if videoStartTime s = None \<or> videoStartTime s = Some 0
                then s\<lparr>videoStartTime := Some now\<rparr> else s);
          videoStats1 = handleSessionStatistics nowStats (videoStartTime s1) (inputController s1)
                          (videoAvgQp s1) videoStats
      in dispatchEvent (StatsReceivedEvent videoStats1) s1)"

definition onVideoEncoderAvgQP :: "int \<Rightarrow> PixelStreaming \<Rightarrow> PixelStreaming" where
  "onVideoEncoderAvgQP QP s = dispatchEvent (VideoEncoderAvgQPEvent QP) s"

text \<open>
  \<^verbatim>\<open>_onInitialSettings\<close>. The permission flag is read into a local constant and only
  logged; the three WebRTC writes are the ones of lines 532 to 543, in their order.
\<close>

definition onInitialSettings :: "InitialSettings \<Rightarrow> PixelStreaming \<Rightarrow> PixelStreaming" where
  "onInitialSettings settings s =
     (let s0 = dispatchEvent (InitialSettingsEvent settings) s;
          s1 = (case pixelStreamingSettings settings of
                  None \<Rightarrow> s0
                | Some p \<Rightarrow>
                    (let allowConsoleCommands = AllowPixelStreamingCommands p
                     in if allowConsoleCommands = Some False
                        then Logger_Log ''-AllowPixelStreamingCommands=false, sending arbitrary console commands from browser to UE is disabled.'' s0
                        else s0));
          s2 = (case encoderSettings settings of
                  None \<Rightarrow> s1
                | Some e \<Rightarrow> setNumericSetting MaxQP (encMaxQP e)
                              (setNumericSetting MinQP (encMinQP e) s1));
          s3 = (case webRTCSettings settings of
                  None \<Rightarrow> s2
                | Some w \<Rightarrow> setNumericSetting WebRTCFPS (FPS w)
                              (setNumericSetting WebRTCMinBitrate (MaxBitrate w)
                                 (setNumericSetting WebRTCMinBitrate (MinBitrate w) s2)))
      in s3)"

definition onQualityControlOwnership :: "bool \<Rightarrow> PixelStreaming \<Rightarrow> PixelStreaming" where
  "onQualityControlOwnership hasQualityOwnership s =
     setFlagEnabled IsQualityController hasQualityOwnership s"

subsection \<open>The request methods\<close>

definition requestLatencyTest :: "PixelStreaming \<Rightarrow> bool \<times> PixelStreaming" where
  "requestLatencyTest s =
     (if \<not> videoReady s then (False, s) else (True, call SendLatencyTest s))"

definition requestShowFps :: "PixelStreaming \<Rightarrow> bool \<times> PixelStreaming" where
  "requestShowFps s =
     (if \<not> videoReady s then (False, s) else (True, call SendShowFps s))"

definition requestIframe :: "PixelStreaming \<Rightarrow> bool \<times> PixelStreaming" where
  "requestIframe s =
     (if \<not> videoReady s then (False, s) else (True, call SendIframeRequest s))"

section \<open>The session controller\<close>

text \<open>
  \<^verbatim>\<open>WebRtcPlayerController\<close> and the classes behind it are not among the sources; only
  their caller (PixelStreaming.ts) and the tests are. Their operations are taken from the
  specification: each definition of this section says which sentences it follows. A message
  or callback that arrives when the thing it acts on does not exist is an unexpected or
  superseded message of section 7 and is dropped with no change of state: the channel-open
  callback and the configuration message of a rendezvous channel that is not up; an offer,
  an answer, a candidate or a callback for a peer session that does not exist. The handler
  of a streamer list is the operation of section 4.2, which states no such condition. The
  verdict of the peer session on a candidate is not part of the model. \<open>connectionUp\<close> says
  that a rendezvous channel has been opened and not closed since, \<open>peerSession\<close> that a peer
  session has been constructed and not closed since.
\<close>

text \<open>
  Modelled from the spec: \<^verbatim>\<open>WebRtcPlayerController.connectToSignallingServer\<close>. Section
  4.3, row \<open>connect()\<close>: open the rendezvous channel, state \<open>SignalingConnecting\<close>.
\<close>

definition connectToSignallingServer :: "PixelStreaming \<Rightarrow> PixelStreaming" where
  "connectToSignallingServer s =
     call OpenRendezvousChannel (s\<lparr>session := SignalingConnecting, connectionUp := True\<rparr>)"

text \<open>
  Modelled from the spec: the handlers of the rendezvous channel. Section 4.3: once the
  channel is open \<open>ListStreamers\<close> is sent; a \<open>Config\<close> message constructs the peer session
  and leaves the state as it is. Section 8: a message of a closed channel affects nothing.
\<close>

definition onChannelOpened :: "PixelStreaming \<Rightarrow> PixelStreaming" where
  "onChannelOpened s =
     (if connectionUp s
      then call SendListStreamers (s\<lparr>session := AwaitingStreamerList\<rparr>) else s)"

definition onConfig :: "PixelStreaming \<Rightarrow> PixelStreaming" where
  "onConfig s =
     (if connectionUp s then call CreatePeerSession (s\<lparr>peerSession := True\<rparr>) else s)"

text \<open>
  Modelled from the spec: the handler of a \<open>StreamerList\<close> message. Section 4.2: the
  directory is replaced; a directory of exactly one identifier is auto-selected and
  \<open>Subscribe\<close> is sent at once, any other directory selects nothing; the discovery event
  carries the full directory and the auto-selected identifier, or none.
\<close>

definition autoSelect :: "string list \<Rightarrow> string option" where
  "autoSelect ids = (if length ids = 1 then Some (hd ids) else None)"

definition onStreamerList :: "string list \<Rightarrow> PixelStreaming \<Rightarrow> PixelStreaming" where
  "onStreamerList ids s =
     (let s1 = s\<lparr>streamerDirectory := ids\<rparr>;
          s2 = (case autoSelect ids of
                  None \<Rightarrow> s1
                | Some streamerId \<Rightarrow>
                    call (SendSubscribe streamerId)
                      (s1\<lparr>selectedStreamer := Some streamerId, session := Subscribed\<rparr>))
      in dispatchEvent (StreamerListMessageEvent ids (autoSelect ids)) s2)"

text \<open>
  Modelled from the spec: the handler of an \<open>Offer\<close>. Section 4.3, row \<open>Subscribed\<close> /
  \<open>Offer\<close>: the remote description is set on the peer session, an answer is generated and
  sent, the buffered candidates are flushed, and the state is \<open>Negotiating\<close>; the
  sdp-exchanged event is the one \<^verbatim>\<open>_onWebRtcSdp\<close> emits. Section 7: an offer received in
  another state, or with no peer session, is an unexpected message and is dropped; a
  description that the peer session rejects is a negotiation failure, which puts the state
  to \<open>Disconnected\<close> and is surfaced as a failure event. \<open>accepted\<close> is the verdict of the
  peer session on the description: it is true for a valid description.
\<close>

definition offerExpected :: "PixelStreaming \<Rightarrow> bool" where
  "offerExpected s = (peerSession s \<and> session s = Subscribed)"

definition onOffer :: "string \<Rightarrow> bool \<Rightarrow> PixelStreaming \<Rightarrow> PixelStreaming" where
  "onOffer sdp accepted s =
     (if \<not> offerExpected s then s
      else
        (let s1 = call (SetRemoteDescription sdp) s
         in if \<not> accepted
            then dispatchEvent WebRtcFailedEvent (s1\<lparr>session := Disconnected, statsTimer := None\<rparr>)
            else
              (let s2 = call SendAnswer s1;
                   s3 = s2\<lparr>calls := calls s2 @ map AddIceCandidate (bufferedCandidates s2)\<rparr>
               in onWebRtcSdp
                    (s3\<lparr>remoteDescription := Some sdp, bufferedCandidates := [],
                       session := Negotiating\<rparr>))))"

text \<open>
  Modelled from the spec: the handler of an inbound \<open>Answer\<close>, which section 4.1 lists among
  the recognised messages. The comment of \<^verbatim>\<open>_onWebRtcSdp\<close> in PixelStreaming.ts says that
  the method is what happens "when receiving a webRTC answer": an answer for an existing
  peer session emits the sdp-exchanged event. The specification gives an answer no other
  effect.
\<close>

definition onAnswer :: "string \<Rightarrow> PixelStreaming \<Rightarrow> PixelStreaming" where
  "onAnswer sdp s = (if peerSession s then onWebRtcSdp s else s)"

text \<open>
  Modelled from the spec: the handler of an \<open>IceCandidate\<close>. Section 4.3: the candidate is
  applied to the peer session. Section 3: a candidate that arrives before a remote
  description exists is buffered.
\<close>

definition onIceCandidate :: "string \<Rightarrow> PixelStreaming \<Rightarrow> PixelStreaming" where
  "onIceCandidate candidate s =
     (if \<not> peerSession s then s
      else if remoteDescription s = None
      then s\<lparr>bufferedCandidates := bufferedCandidates s @ [candidate]\<rparr>
      else call (AddIceCandidate candidate) s)"

text \<open>
  Modelled from the spec: the connectivity callbacks of the peer session. Section 4.3: on
  \<open>connected\<close> the state is \<open>Connected\<close>, statistics polling starts and the connected event
  is emitted; on \<open>failed\<close> the state is \<open>Disconnected\<close> and the failure event is emitted.
  Section 4.4: the timer is started on entering \<open>Connected\<close> and stopped on leaving it, so
  a \<open>connected\<close> callback of a session that is \<open>Connected\<close> already changes nothing.
  Section 8: exactly one connected event fires, and a callback of a session that has been
  closed affects nothing. The test of the connected event reports \<open>connected\<close> right after
  the configuration message and a candidate, so the callback is taken in every state of an
  existing peer session. Section 3: the flag \<open>wasConnected\<close> records that \<open>Connected\<close> was
  reached. \<open>statsTimer\<close> holds the milliseconds since the timer was armed or last fired.
\<close>

definition onConnectivityConnected :: "PixelStreaming \<Rightarrow> PixelStreaming" where
  "onConnectivityConnected s =
     (if peerSession s \<and> session s \<noteq> Connected
      then onWebRtcConnected
             (s\<lparr>session := Connected, wasConnected := True, statsTimer := Some 0\<rparr>)
      else s)"

definition onConnectivityFailed :: "PixelStreaming \<Rightarrow> PixelStreaming" where
  "onConnectivityFailed s =
     (if peerSession s
      then onWebRtcFailed (s\<lparr>session := Disconnected, statsTimer := None\<rparr>) else s)"

text \<open>
  Modelled from the spec: closing a session. Section 4.3, row \<open>disconnect()\<close>: close the
  peer session, close the rendezvous channel, stop polling. Section 3: the selected streamer
  is cleared on disconnect, and directory and negotiation context belong to one session.
\<close>

definition closeSession :: "PixelStreaming \<Rightarrow> PixelStreaming" where
  "closeSession s =
     (call CloseRendezvousChannel (call ClosePeerSession s))
       \<lparr>connectionUp := False, peerSession := False,
        statsTimer := None, selectedStreamer := None, streamerDirectory := [],
        remoteDescription := None, bufferedCandidates := [], sideChannelOpen := False\<rparr>"

text \<open>
  Modelled from the spec: \<^verbatim>\<open>WebRtcPlayerController.close\<close>. Section 4.3, row
  \<open>disconnect()\<close>: after closing, the disconnected event is emitted (by \<^verbatim>\<open>_onDisconnect\<close>)
  and the state is \<open>Disconnected\<close>. \<open>reason\<close> is the human-readable reason of the event.
\<close>

definition close :: "string \<Rightarrow> PixelStreaming \<Rightarrow> PixelStreaming" where
  "close reason s = onDisconnect reason ((closeSession s)\<lparr>session := Disconnected\<rparr>)"

text \<open>
  Modelled from the spec: \<^verbatim>\<open>WebRtcPlayerController.restartStreamAutomatically\<close>. Section
  4.3, row \<open>reconnect()\<close>, sections 3 and 8: a controller that had ever reached \<open>Connected\<close>
  closes the existing session and waits the fixed delay of 3000 ms before it reopens the
  channel and emits the auto-connect event (by \<^verbatim>\<open>_onWebRtcAutoConnect\<close>); a controller
  that never reached it reopens immediately. One case is taken from the sources instead:
  the comment of \<^verbatim>\<open>reconnect\<close> in PixelStreaming.ts reads "If connection is up, disconnects
  first before establishing a new connection", and the second reconnect test
  (PixelStreaming.test.ts, lines 103 to 116) expects the close and the delayed reconnect of
  a controller whose channel \<^verbatim>\<open>AutoConnect\<close> has opened and which has seen no message and no
  connectivity change. So a connection that is up is closed first as well, and the
  immediate branch is left to a controller that never reached \<open>Connected\<close> and has no
  connection up. \<open>reconnectTimer\<close> holds the milliseconds still to wait; arming it replaces
  a pending delay.
\<close>

definition reconnectDelay :: nat where
  "reconnectDelay = 3000"

definition restartStreamAutomatically :: "PixelStreaming \<Rightarrow> PixelStreaming" where
  "restartStreamAutomatically s =
     (if wasConnected s \<or> connectionUp s
      then (closeSession s)\<lparr>session := Closing, reconnectTimer := Some reconnectDelay\<rparr>
      else connectToSignallingServer s)"

definition onReconnectDelayPassed :: "PixelStreaming \<Rightarrow> PixelStreaming" where
  "onReconnectDelayPassed s = onWebRtcAutoConnect (connectToSignallingServer s)"

text \<open>
  Modelled from the spec: the side channel. Section 4.3: the controller emits a channel-open
  event once the peer session reports the channel open.
\<close>

definition onSideChannelOpened :: "PixelStreaming \<Rightarrow> PixelStreaming" where
  "onSideChannelOpened s =
     (if peerSession s
      then dispatchEvent DataChannelOpenEvent (s\<lparr>sideChannelOpen := True\<rparr>) else s)"

text \<open>
  Modelled from the spec: the statistics aggregator and the timers. Section 4.4: on each
  tick of 1000 ms while the state is \<open>Connected\<close> the raw metrics of the peer session are
  merged into a snapshot and emitted (through \<^verbatim>\<open>_onVideoStats\<close>); a tick while not
  \<open>Connected\<close> emits nothing. Time is counted in milliseconds: \<open>tick\<close> is the passing of one
  millisecond, \<open>metrics\<close> the raw metric set the peer session reports.
\<close>

definition statsInterval :: nat where
  "statsInterval = 1000"

definition statsTick :: "AggregatedStats \<Rightarrow> PixelStreaming \<Rightarrow> PixelStreaming" where
  "statsTick metrics s =
     (if session s = Connected then onVideoStats (clock s) (clock s) metrics s else s)"

definition tickStats :: "AggregatedStats \<Rightarrow> PixelStreaming \<Rightarrow> PixelStreaming" where
  "tickStats metrics s =
     (case statsTimer s of
        None \<Rightarrow> s
      | Some elapsed \<Rightarrow>
          if Suc elapsed \<ge> statsInterval
          then statsTick metrics (s\<lparr>statsTimer := Some 0\<rparr>)
          else s\<lparr>statsTimer := Some (Suc elapsed)\<rparr>)"

definition tickReconnect :: "PixelStreaming \<Rightarrow> PixelStreaming" where
  "tickReconnect s =
     (case reconnectTimer s of
        None \<Rightarrow> s
      | Some remaining \<Rightarrow>
          if remaining \<le> 1
          then onReconnectDelayPassed (s\<lparr>reconnectTimer := None\<rparr>)
          else s\<lparr>reconnectTimer := Some (remaining - 1)\<rparr>)"

definition tick :: "AggregatedStats \<Rightarrow> PixelStreaming \<Rightarrow> PixelStreaming" where
  "tick metrics s = tickReconnect (tickStats metrics (s\<lparr>clock := clock s + 1\<rparr>))"

fun advanceTimersByTime :: "AggregatedStats \<Rightarrow> nat \<Rightarrow> PixelStreaming \<Rightarrow> PixelStreaming" where
  "advanceTimersByTime metrics 0 s = s"
| "advanceTimersByTime metrics (Suc n) s = advanceTimersByTime metrics n (tick metrics s)"

section \<open>The lifecycle methods of PixelStreaming\<close>

definition connect :: "PixelStreaming \<Rightarrow> PixelStreaming" where
  "connect s = connectToSignallingServer s"

definition reconnect :: "PixelStreaming \<Rightarrow> PixelStreaming" where
  "reconnect s = restartStreamAutomatically s"

definition disconnect :: "string \<Rightarrow> PixelStreaming \<Rightarrow> PixelStreaming" where
  "disconnect reason s = close reason s"

definition play :: "PixelStreaming \<Rightarrow> PixelStreaming" where
  "play s = call PlayStream (onStreamLoading s)"

datatype error = TypeError

text \<open>
  \<^verbatim>\<open>emitConsoleCommand\<close>. The class of PixelStreaming.ts declares no member of this name,
  and no field that holds a permission: the call \<^verbatim>\<open>pixelStreaming.emitConsoleCommand(...)\<close>
  finds no function and raises a \<^verbatim>\<open>TypeError\<close> before anything is written.
\<close>

definition emitConsoleCommand :: "string \<Rightarrow> PixelStreaming \<Rightarrow> error + PixelStreaming" where
  "emitConsoleCommand command s = Inl TypeError"

definition checkForAutoConnect :: "PixelStreaming \<Rightarrow> PixelStreaming" where
  "checkForAutoConnect s =
     (if isFlagEnabled AutoConnect s
      then connectToSignallingServer (onWebRtcAutoConnect s) else s)"

definition setWebRtcPlayerController :: "PixelStreaming \<Rightarrow> PixelStreaming" where
  "setWebRtcPlayerController s =
     checkForAutoConnect (call ResizePlayerStyle (call SetPreferredCodec s))"

text \<open>
  The constructor, for a configuration with the given flags and numeric settings. A new
  controller has no session and no override message; the on-screen keyboard, the XR
  controller and the DOM element are outside the model.
\<close>

definition newPixelStreaming :: "(Flags \<Rightarrow> bool) \<Rightarrow> (NumericParameters \<Rightarrow> int) \<Rightarrow> PixelStreaming" where
  "newPixelStreaming flags numbers =
     setWebRtcPlayerController
       \<lparr>numericSettings = numbers, flagSettings = flags,
        showActionOrErrorOnDisconnect = True, videoStartTime = None, inputController = None,
        dispatched = [], logged = [],
        isQualityController = False, disconnectMessageOverride = JsUndefined,
        videoReady = False, videoAvgQp = 0, calls = [],
        session = Idle, connectionUp = False, peerSession = False, wasConnected = False,
        streamerDirectory = [],
        selectedStreamer = None,
        remoteDescription = None, bufferedCandidates = [], sideChannelOpen = False,
        statsTimer = None, reconnectTimer = None, clock = 0\<rparr>"

section \<open>Executions\<close>

text \<open>
  Everything that can happen to a controller: a call of the embedding application, a
  message on the rendezvous channel, a callback of the peer session, a frame on the side
  channel, a write to the configuration, the video element becoming ready, or time passing.
  \<open>VideoInitialized\<close> is the video player reporting its video ready: \<^verbatim>\<open>_onVideoInitialized\<close>
  runs with the current clock reading, and \<^verbatim>\<open>isVideoReady()\<close> holds from then on. A call of
  \<^verbatim>\<open>emitConsoleCommand\<close> raises its error to the application and leaves the controller as
  it was.
\<close>

datatype Input =
    CallConnect
  | CallDisconnect string
  | CallReconnect
  | CallPlay
  | CallEmitConsoleCommand string
  | CallRequestLatencyTest
  | CallRequestShowFps
  | CallRequestIframe
  | ChannelOpened
  | ConfigMessage
  | StreamerListMessage "string list"
  | OfferMessage string bool
  | AnswerMessage string
  | IceCandidateMessage string
  | ConnectivityConnected
  | ConnectivityFailed
  | SideChannelOpened
  | InitialSettingsMessage InitialSettings
  | QualityControlOwnershipMessage bool
  | InputControlOwnershipMessage bool
  | SetFlag Flags bool
  | SetNumeric NumericParameters int
  | VideoInitialized
  | TimePasses AggregatedStats nat

fun step :: "Input \<Rightarrow> PixelStreaming \<Rightarrow> PixelStreaming" where
  "step CallConnect s = connect s"
| "step (CallDisconnect reason) s = disconnect reason s"
| "step CallReconnect s = reconnect s"
| "step CallPlay s = play s"
| "step (CallEmitConsoleCommand command) s =
     (case emitConsoleCommand command s of Inl e \<Rightarrow> s | Inr s1 \<Rightarrow> s1)"
| "step CallRequestLatencyTest s = snd (requestLatencyTest s)"
| "step CallRequestShowFps s = snd (requestShowFps s)"
| "step CallRequestIframe s = snd (requestIframe s)"
| "step ChannelOpened s = onChannelOpened s"
| "step ConfigMessage s = onConfig s"
| "step (StreamerListMessage ids) s = onStreamerList ids s"
| "step (OfferMessage sdp accepted) s = onOffer sdp accepted s"
| "step (AnswerMessage sdp) s = onAnswer sdp s"
| "step (IceCandidateMessage candidate) s = onIceCandidate candidate s"
| "step ConnectivityConnected s = onConnectivityConnected s"
| "step ConnectivityFailed s = onConnectivityFailed s"
| "step SideChannelOpened s = onSideChannelOpened s"
| "step (InitialSettingsMessage settings) s = onInitialSettings settings s"
| "step (QualityControlOwnershipMessage b) s = onQualityControlOwnership b s"
| "step (InputControlOwnershipMessage b) s = onInputControlOwnership b s"
| "step (SetFlag f v) s = setFlagEnabled f v s"
| "step (SetNumeric p v) s = setNumericSetting p v s"
| "step VideoInitialized s = (onVideoInitialized (clock s) s)\<lparr>videoReady := True\<rparr>"
| "step (TimePasses metrics n) s = advanceTimersByTime metrics n s"

fun run :: "Input list \<Rightarrow> PixelStreaming \<Rightarrow> PixelStreaming" where
  "run [] s = s"
| "run (i # is) s = run is (step i s)"

text \<open>A configuration with every flag off and every numeric setting 0.\<close>

definition noFlags :: "Flags \<Rightarrow> bool" where
  "noFlags f = False"

definition zeroNumbers :: "NumericParameters \<Rightarrow> int" where
  "zeroNumbers p = 0"

text \<open>The configuration of the tests that set \<^verbatim>\<open>AutoConnect: true\<close>.\<close>

definition autoConnectFlags :: "Flags \<Rightarrow> bool" where
  "autoConnectFlags f = (f = AutoConnect)"

fun isStatsReceived :: "PixelStreamingEvent \<Rightarrow> bool" where
  "isStatsReceived (StatsReceivedEvent v) = True"
| "isStatsReceived e = False"

definition statsEmitted :: "PixelStreaming \<Rightarrow> nat" where
  "statsEmitted s = length (filter isStatsReceived (dispatched s))"


fun isWriteConsoleCommand :: "Call \<Rightarrow> bool" where
  "isWriteConsoleCommand (WriteConsoleCommand c) = True"
| "isWriteConsoleCommand c = False"



text \<open>The milliseconds that pass in an input, and in a list of inputs.\<close>

fun msOf :: "Input \<Rightarrow> nat" where
  "msOf (TimePasses metrics n) = n"
| "msOf i = 0"

definition elapsed :: "Input list \<Rightarrow> nat" where
  "elapsed inputs = sum_list (map msOf inputs)"

text \<open>The session is \<open>Connected\<close> before the inputs and after each of them.\<close>

fun staysConnected :: "Input list \<Rightarrow> PixelStreaming \<Rightarrow> bool" where
  "staysConnected [] s = (session s = Connected)"
| "staysConnected (i # is) s = (session s = Connected \<and> staysConnected is (step i s))"



text \<open>
  The raw metric set of the statistics test, and a controller that has connected to the
  signalling server and constructed its peer session from the configuration message.
\<close>

definition mockMetrics :: AggregatedStats where
  "mockMetrics = \<lparr>candidatePairBytesReceived = 123, sessionStats = None\<rparr>"

definition configuredController :: PixelStreaming where
  "configuredController =
     run [CallConnect, ChannelOpened, ConfigMessage] (newPixelStreaming noFlags zeroNumbers)"

section \<open>Properties\<close>

lemmas basic_defs = dispatchEvent_def call_def Logger_Log_def getNumericSettingValue_def
  isFlagEnabled_def setFlagLabel_def sendEncoderSettingsLogged_def sendWebRtcSettingsLogged_def

lemmas new_defs = newPixelStreaming_def setWebRtcPlayerController_def checkForAutoConnect_def
  noFlags_def zeroNumbers_def autoConnectFlags_def

lemmas handler_defs = connect_def reconnect_def disconnect_def play_def close_def
  closeSession_def restartStreamAutomatically_def connectToSignallingServer_def
  onChannelOpened_def onConfig_def onStreamerList_def onIceCandidate_def
  onConnectivityConnected_def onConnectivityFailed_def onSideChannelOpened_def
  onAnswer_def requestLatencyTest_def requestShowFps_def requestIframe_def
  onQualityControlOwnership_def onInputControlOwnership_def onVideoInitialized_def
  onStreamLoading_def onWebRtcConnected_def onWebRtcFailed_def onWebRtcAutoConnect_def
  onReconnectDelayPassed_def setFlagEnabled_def

subsection \<open>Initial settings and the bitrate settings\<close>

lemma setNumericSetting_numericSettings:
  "numericSettings (setNumericSetting p v s) = (numericSettings s)(p := v)"
  by (cases p) (simp_all add: setNumericSetting_def basic_defs)

lemma onInitialSettings_webrtc:
  "webRTCSettings settings = Some w \<Longrightarrow>
     numericSettings (onInitialSettings settings s) WebRTCMinBitrate = MaxBitrate w
   \<and> numericSettings (onInitialSettings settings s) WebRTCMaxBitrate
       = numericSettings s WebRTCMaxBitrate
   \<and> numericSettings (onInitialSettings settings s) WebRTCFPS = FPS w"
  by (simp add: onInitialSettings_def Let_def setNumericSetting_numericSettings basic_defs
        split: option.splits)

text \<open>
  Claim C1. The claim: an initial-settings message with WebRTC settings stores its
  \<^verbatim>\<open>MinBitrate\<close> in the setting \<^verbatim>\<open>WebRTCMinBitrate\<close>, its \<^verbatim>\<open>MaxBitrate\<close> in
  \<^verbatim>\<open>WebRTCMaxBitrate\<close> and its \<^verbatim>\<open>FPS\<close> in \<^verbatim>\<open>WebRTCFPS\<close>, and neither bitrate is written
  into the other's setting. What \<^verbatim>\<open>_onInitialSettings\<close> does on a new controller with the
  message FPS 60, MinBitrate 1000, MaxBitrate 20000: the second write names
  \<^verbatim>\<open>WebRTCMinBitrate\<close> again, so that setting ends at 20000, the maximum of the message, and
  \<^verbatim>\<open>WebRTCMaxBitrate\<close> keeps its old value 0. Only the frame rate arrives where the claim
  says.
\<close>

theorem onInitialSettings_max_bitrate_lands_in_min:
  "numericSettings
     (onInitialSettings
        \<lparr>pixelStreamingSettings = None, encoderSettings = None,
         webRTCSettings = Some \<lparr>FPS = 60, MinBitrate = 1000, MaxBitrate = 20000\<rparr>\<rparr>
        (newPixelStreaming noFlags zeroNumbers)) WebRTCMinBitrate = 20000
   \<and> numericSettings
     (onInitialSettings
        \<lparr>pixelStreamingSettings = None, encoderSettings = None,
         webRTCSettings = Some \<lparr>FPS = 60, MinBitrate = 1000, MaxBitrate = 20000\<rparr>\<rparr>
        (newPixelStreaming noFlags zeroNumbers)) WebRTCMaxBitrate = 0
   \<and> numericSettings
     (onInitialSettings
        \<lparr>pixelStreamingSettings = None, encoderSettings = None,
         webRTCSettings = Some \<lparr>FPS = 60, MinBitrate = 1000, MaxBitrate = 20000\<rparr>\<rparr>
        (newPixelStreaming noFlags zeroNumbers)) WebRTCFPS = 60"
  by (simp add: onInitialSettings_def Let_def setNumericSetting_numericSettings new_defs
        basic_defs)

subsection \<open>Quality-control ownership\<close>

text \<open>
  Claim C7. Writing the \<^verbatim>\<open>IsQualityController\<close> setting sends exactly one ownership request
  when the new value is true and the controller is not the quality controller, and sends
  nothing when the new value is true while it already is the owner or when the new value
  is false; an inbound ownership message leaves the setting equal to the granted value.
\<close>

theorem quality_control_ownership_request_and_grant:
  "calls (setFlagEnabled IsQualityController v s)
     = calls s @ (if v \<and> \<not> isQualityController s
                  then [SendRequestQualityControlOwnership] else [])
   \<and> flagSettings (onQualityControlOwnership granted s) IsQualityController = granted"
  by (simp add: setFlagEnabled_def onQualityControlOwnership_def basic_defs)

subsection \<open>The start time of the video\<close>

text \<open>
  Claim C8. Every statistics callback emits one snapshot whose session run time is defined.
  When the callback runs while the start time is still unset, the start time becomes the
  clock reading \<open>now\<close> before the session statistics are computed, and the run time of that
  snapshot is \<open>nowStats - now\<close>, the time between the two clock readings of the callback:
  zero when the clock has not moved.
\<close>

theorem onVideoStats_start_time_defined:
  "(\<exists>stats ss d. dispatched (onVideoStats now nowStats videoStats s)
                     = dispatched s @ [StatsReceivedEvent stats]
        \<and> sessionStats stats = Some ss \<and> runTime ss = Some d)
   \<and> (videoStartTime s = None \<longrightarrow>
         videoStartTime (onVideoStats now nowStats videoStats s) = Some now
       \<and> dispatched (onVideoStats now nowStats videoStats s)
           = dispatched s @ [StatsReceivedEvent (videoStats\<lparr>sessionStats := Some
               \<lparr>runTime = Some (nowStats - now), controlsStreamInput = inputController s,
                videoEncoderAvgQP = videoAvgQp s\<rparr>\<rparr>)])"
  by (simp add: onVideoStats_def handleSessionStatistics_def Let_def basic_defs
        split: option.splits)

theorem onVideoStats_start_time_defined_witness:
  "videoStartTime (newPixelStreaming noFlags zeroNumbers) = None
   \<and> videoStartTime (onVideoStats 1700000000000 1700000000000
        \<lparr>candidatePairBytesReceived = 123, sessionStats = None\<rparr>
        (newPixelStreaming noFlags zeroNumbers)) = Some 1700000000000
   \<and> dispatched (onVideoStats 1700000000000 1700000000000
        \<lparr>candidatePairBytesReceived = 123, sessionStats = None\<rparr>
        (newPixelStreaming noFlags zeroNumbers))
     = [StatsReceivedEvent \<lparr>candidatePairBytesReceived = 123, sessionStats = Some
          \<lparr>runTime = Some 0, controlsStreamInput = None, videoEncoderAvgQP = 0\<rparr>\<rparr>]"
  using onVideoStats_start_time_defined
    [of 1700000000000 1700000000000 "\<lparr>candidatePairBytesReceived = 123, sessionStats = None\<rparr>"
        "newPixelStreaming noFlags zeroNumbers"]
  by (simp add: new_defs basic_defs)

subsection \<open>The disconnected event\<close>

text \<open>
  Claim C9, as stated: after any call of \<^verbatim>\<open>_onDisconnect\<close> the override is the empty string.
  It is not when no override was ever set: the guard of lines 412 to 417 skips an undefined
  override, which therefore stays undefined.
\<close>

theorem onDisconnect_override_counterexample:
  "disconnectMessageOverride
     (onDisconnect ''Websocket disconnect''
        ((newPixelStreaming noFlags zeroNumbers)\<lparr>disconnectMessageOverride := JsUndefined\<rparr>))
   \<noteq> JsStr []"
  by (simp add: onDisconnect_def overrideIsSet_def dispatchEvent_def Let_def)

text \<open>
  Claim C9, amended. After any call of \<^verbatim>\<open>_onDisconnect\<close> the flag is true and the override
  is never a non-empty string: a string override has become the empty string, an undefined
  or null override is as it was. The event carries the override when that was a non-empty
  string at entry and the given text otherwise, with the flag as it was at entry. The next
  disconnected event carries its own text and the flag true: an override or a cleared flag
  reaches one event only.
\<close>

theorem onDisconnect_resets_override_and_flag:
  "showActionOrErrorOnDisconnect (onDisconnect eventString s) = True
   \<and> disconnectMessageOverride (onDisconnect eventString s)
       = (case disconnectMessageOverride s of JsStr m \<Rightarrow> JsStr [] | v \<Rightarrow> v)
   \<and> dispatched (onDisconnect eventString s)
       = dispatched s @ [WebRtcDisconnectedEvent
           (case disconnectMessageOverride s of
              JsStr m \<Rightarrow> (if m = [] then eventString else m) | v \<Rightarrow> eventString)
           (showActionOrErrorOnDisconnect s)]
   \<and> dispatched (onDisconnect eventString2 (onDisconnect eventString s))
       = dispatched (onDisconnect eventString s) @ [WebRtcDisconnectedEvent eventString2 True]"
  by (cases "disconnectMessageOverride s")
     (simp_all add: onDisconnect_def overrideIsSet_def dispatchEvent_def Let_def)

subsection \<open>The request methods\<close>

text \<open>
  Claim C10. Each of \<^verbatim>\<open>requestLatencyTest\<close>, \<^verbatim>\<open>requestShowFps\<close> and \<^verbatim>\<open>requestIframe\<close>
  returns whether the video is ready. When it is not, the state after the call is the state
  before it: nothing is sent and nothing changes. When it is, the only change is the one
  corresponding request sent.
\<close>

theorem request_methods_need_ready_video:
  "fst (requestLatencyTest s) = videoReady s \<and> fst (requestShowFps s) = videoReady s
   \<and> fst (requestIframe s) = videoReady s
   \<and> (\<not> videoReady s \<longrightarrow> snd (requestLatencyTest s) = s \<and> snd (requestShowFps s) = s
          \<and> snd (requestIframe s) = s)
   \<and> (videoReady s \<longrightarrow> snd (requestLatencyTest s) = s\<lparr>calls := calls s @ [SendLatencyTest]\<rparr>
          \<and> snd (requestShowFps s) = s\<lparr>calls := calls s @ [SendShowFps]\<rparr>
          \<and> snd (requestIframe s) = s\<lparr>calls := calls s @ [SendIframeRequest]\<rparr>)"
  by (simp add: requestLatencyTest_def requestShowFps_def requestIframe_def basic_defs)

theorem request_methods_need_ready_video_witness:
  "\<not> videoReady (newPixelStreaming noFlags zeroNumbers)
   \<and> requestLatencyTest (newPixelStreaming noFlags zeroNumbers)
       = (False, newPixelStreaming noFlags zeroNumbers)
   \<and> requestShowFps (newPixelStreaming noFlags zeroNumbers)
       = (False, newPixelStreaming noFlags zeroNumbers)
   \<and> requestIframe (newPixelStreaming noFlags zeroNumbers)
       = (False, newPixelStreaming noFlags zeroNumbers)
   \<and> videoReady (step VideoInitialized (newPixelStreaming noFlags zeroNumbers))
   \<and> fst (requestLatencyTest (step VideoInitialized (newPixelStreaming noFlags zeroNumbers)))
   \<and> calls (snd (requestLatencyTest (step VideoInitialized (newPixelStreaming noFlags zeroNumbers))))
       = [SetPreferredCodec, ResizePlayerStyle, SendLatencyTest]
   \<and> calls (snd (requestShowFps (step VideoInitialized (newPixelStreaming noFlags zeroNumbers))))
       = [SetPreferredCodec, ResizePlayerStyle, SendShowFps]
   \<and> calls (snd (requestIframe (step VideoInitialized (newPixelStreaming noFlags zeroNumbers))))
       = [SetPreferredCodec, ResizePlayerStyle, SendIframeRequest]"
proof -
  have n: "\<not> videoReady (newPixelStreaming noFlags zeroNumbers)"
    by (simp add: new_defs basic_defs)
  have r: "videoReady (step VideoInitialized (newPixelStreaming noFlags zeroNumbers))"
    by simp
  have c: "calls (step VideoInitialized (newPixelStreaming noFlags zeroNumbers))
      = [SetPreferredCodec, ResizePlayerStyle]"
    by (simp add: new_defs basic_defs onVideoInitialized_def)
  show ?thesis
    using n r c request_methods_need_ready_video [of "newPixelStreaming noFlags zeroNumbers"]
      request_methods_need_ready_video
        [of "step VideoInitialized (newPixelStreaming noFlags zeroNumbers)"]
    by (simp add: prod_eq_iff)
qed

subsection \<open>What the handlers leave alone\<close>

lemma setNumericSetting_frame:
  "session (setNumericSetting p v s) = session s
   \<and> statsTimer (setNumericSetting p v s) = statsTimer s
   \<and> reconnectTimer (setNumericSetting p v s) = reconnectTimer s
   \<and> connectionUp (setNumericSetting p v s) = connectionUp s
   \<and> peerSession (setNumericSetting p v s) = peerSession s
   \<and> dispatched (setNumericSetting p v s) = dispatched s @ [SettingsChangedNumberEvent p v]
   \<and> filter isWriteConsoleCommand (calls (setNumericSetting p v s))
       = filter isWriteConsoleCommand (calls s)"
  by (cases p) (simp_all add: setNumericSetting_def basic_defs)

lemma setFlagEnabled_frame:
  "session (setFlagEnabled f v s) = session s
   \<and> statsTimer (setFlagEnabled f v s) = statsTimer s
   \<and> reconnectTimer (setFlagEnabled f v s) = reconnectTimer s
   \<and> connectionUp (setFlagEnabled f v s) = connectionUp s
   \<and> peerSession (setFlagEnabled f v s) = peerSession s
   \<and> dispatched (setFlagEnabled f v s) = dispatched s @ [SettingsChangedFlagEvent f v]
   \<and> filter isWriteConsoleCommand (calls (setFlagEnabled f v s))
       = filter isWriteConsoleCommand (calls s)"
  by (cases f) (simp_all add: setFlagEnabled_def basic_defs)

lemma onInitialSettings_frame:
  "session (onInitialSettings st s) = session s
   \<and> statsTimer (onInitialSettings st s) = statsTimer s
   \<and> reconnectTimer (onInitialSettings st s) = reconnectTimer s
   \<and> connectionUp (onInitialSettings st s) = connectionUp s
   \<and> peerSession (onInitialSettings st s) = peerSession s
   \<and> statsEmitted (onInitialSettings st s) = statsEmitted s
   \<and> (WebRtcSdpEvent \<in> set (dispatched (onInitialSettings st s))
        = (WebRtcSdpEvent \<in> set (dispatched s)))
   \<and> filter isWriteConsoleCommand (calls (onInitialSettings st s))
       = filter isWriteConsoleCommand (calls s)"
  by (simp add: onInitialSettings_def Let_def setNumericSetting_frame statsEmitted_def
        basic_defs split: option.splits)

lemma onDisconnect_frame:
  "session (onDisconnect r s) = session s
   \<and> statsTimer (onDisconnect r s) = statsTimer s
   \<and> reconnectTimer (onDisconnect r s) = reconnectTimer s
   \<and> connectionUp (onDisconnect r s) = connectionUp s
   \<and> peerSession (onDisconnect r s) = peerSession s
   \<and> calls (onDisconnect r s) = calls s
   \<and> statsEmitted (onDisconnect r s) = statsEmitted s
   \<and> (WebRtcSdpEvent \<in> set (dispatched (onDisconnect r s))
        = (WebRtcSdpEvent \<in> set (dispatched s)))"
  by (simp add: onDisconnect_def Let_def dispatchEvent_def statsEmitted_def split: prod.splits)

lemma disconnect_frame:
  "session (disconnect r s) = Disconnected
   \<and> statsTimer (disconnect r s) = None
   \<and> reconnectTimer (disconnect r s) = reconnectTimer s
   \<and> \<not> connectionUp (disconnect r s)
   \<and> \<not> peerSession (disconnect r s)
   \<and> statsEmitted (disconnect r s) = statsEmitted s
   \<and> (WebRtcSdpEvent \<in> set (dispatched (disconnect r s))
        = (WebRtcSdpEvent \<in> set (dispatched s)))
   \<and> filter isWriteConsoleCommand (calls (disconnect r s))
       = filter isWriteConsoleCommand (calls s)"
proof -
  let ?c = "(closeSession s)\<lparr>session := Disconnected\<rparr>"
  have "session ?c = Disconnected" "statsTimer ?c = None" "reconnectTimer ?c = reconnectTimer s"
    "\<not> connectionUp ?c" "\<not> peerSession ?c" "statsEmitted ?c = statsEmitted s"
    "dispatched ?c = dispatched s"
    "filter isWriteConsoleCommand (calls ?c) = filter isWriteConsoleCommand (calls s)"
    by (simp_all add: closeSession_def call_def statsEmitted_def)
  then show ?thesis by (simp add: disconnect_def close_def onDisconnect_frame)
qed

subsection \<open>Statistics snapshots\<close>

lemma div_step: "(0::nat) < c \<Longrightarrow> a div c + (a mod c + b) div c = (a + b) div c"
proof -
  assume c: "0 < c"
  have "a + b = (a mod c + b) + (a div c) * c" by simp
  then have "(a + b) div c = ((a mod c + b) + (a div c) * c) div c" by simp
  also have "\<dots> = (a mod c + b) div c + a div c" using c by (simp only: div_mult_self1)
  finally show ?thesis by simp
qed

lemma wrap_mod: "Suc e = c \<Longrightarrow> n mod c = (e + Suc n) mod c"
proof -
  assume h: "Suc e = c"
  have eq: "e + Suc n = c + n" using h by simp
  show ?thesis unfolding eq by (rule mod_add_self1[symmetric])
qed

lemma wrap_div: "Suc e = c \<Longrightarrow> 1 + n div c = (e + Suc n) div c"
proof -
  assume h: "Suc e = c"
  have eq: "e + Suc n = c + n" using h by simp
  have nz: "c \<noteq> 0" using h by auto
  show ?thesis unfolding eq using div_add_self1[OF nz, of n] by simp
qed

lemma tick_not_connected:
  "session s \<noteq> Connected \<Longrightarrow>
     session (tick m s) \<noteq> Connected \<and> statsEmitted (tick m s) = statsEmitted s"
  by (simp add: tick_def tickStats_def tickReconnect_def statsTick_def statsEmitted_def
        onReconnectDelayPassed_def onWebRtcAutoConnect_def connectToSignallingServer_def
        Let_def dispatchEvent_def call_def split: option.splits)

lemma advance_not_connected:
  "session s \<noteq> Connected \<Longrightarrow>
     session (advanceTimersByTime m n s) \<noteq> Connected
   \<and> statsEmitted (advanceTimersByTime m n s) = statsEmitted s"
proof (induction n arbitrary: s)
  case 0
  then show ?case by simp
next
  case (Suc n)
  from tick_not_connected[OF Suc.prems, of m] Suc.IH[of "tick m s"]
  show ?case by simp
qed

lemma tick_connected:
  assumes "session s = Connected" "statsTimer s = Some e" "session (tick m s) = Connected"
  shows "statsTimer (tick m s) = Some (if Suc e \<ge> statsInterval then 0 else Suc e)
     \<and> statsEmitted (tick m s) = statsEmitted s + (if Suc e \<ge> statsInterval then 1 else 0)"
  using assms
  by (auto simp: tick_def tickStats_def tickReconnect_def statsTick_def statsEmitted_def
        onVideoStats_def Let_def dispatchEvent_def onReconnectDelayPassed_def
        onWebRtcAutoConnect_def connectToSignallingServer_def call_def
        split: option.splits if_splits)

lemma advance_connected:
  "session s = Connected \<Longrightarrow> statsTimer s = Some e \<Longrightarrow> e < statsInterval \<Longrightarrow>
   session (advanceTimersByTime m n s) = Connected \<Longrightarrow>
     statsTimer (advanceTimersByTime m n s) = Some ((e + n) mod statsInterval)
   \<and> statsEmitted (advanceTimersByTime m n s) = statsEmitted s + (e + n) div statsInterval"
proof (induction n arbitrary: s e)
  case 0
  then show ?case by simp
next
  case (Suc n)
  let ?e' = "if Suc e \<ge> statsInterval then 0 else Suc e"
  have c: "session (tick m s) = Connected"
  proof (rule ccontr)
    assume "session (tick m s) \<noteq> Connected"
    from advance_not_connected[OF this, of m n] Suc.prems(4) show False by simp
  qed
  from tick_connected[OF Suc.prems(1) Suc.prems(2) c]
  have t: "statsTimer (tick m s) = Some ?e'"
    "statsEmitted (tick m s) = statsEmitted s + (if Suc e \<ge> statsInterval then 1 else 0)"
    by simp_all
  have lt: "?e' < statsInterval" using Suc.prems(3) by (simp add: statsInterval_def)
  from Suc.prems(4) have c': "session (advanceTimersByTime m n (tick m s)) = Connected" by simp
  note ih = Suc.IH[OF c t(1) lt c']
  show ?case
  proof (cases "Suc e \<ge> statsInterval")
    case True
    with Suc.prems(3) have w: "Suc e = statsInterval" by simp
    from wrap_mod[OF w, of n] wrap_div[OF w, of n] ih t(2) True show ?thesis by simp
  next
    case False
    with ih t(2) show ?thesis by simp
  qed
qed

lemma step_connected:
  assumes "session s = Connected" "statsTimer s = Some e" "e < statsInterval"
    "session (step i s) = Connected"
  shows "statsTimer (step i s) = Some ((e + msOf i) mod statsInterval)
     \<and> statsEmitted (step i s) = statsEmitted s + (e + msOf i) div statsInterval"
proof (cases i)
  case (CallDisconnect r)
  then show ?thesis using assms disconnect_frame[of r s] by simp
next
  case (SetFlag f v)
  then show ?thesis using assms by (simp add: setFlagEnabled_frame statsEmitted_def)
next
  case (SetNumeric p v)
  then show ?thesis using assms by (simp add: setNumericSetting_frame statsEmitted_def)
next
  case (QualityControlOwnershipMessage b)
  then show ?thesis using assms
    by (simp add: onQualityControlOwnership_def setFlagEnabled_frame statsEmitted_def)
next
  case (InitialSettingsMessage st)
  then show ?thesis using assms by (simp add: onInitialSettings_frame)
next
  case (TimePasses m n)
  then show ?thesis using assms advance_connected[of s e m n] by simp
qed (use assms in \<open>auto simp: handler_defs basic_defs Let_def autoSelect_def statsEmitted_def
        onOffer_def offerExpected_def onWebRtcSdp_def emitConsoleCommand_def reconnectDelay_def
        split: option.splits if_splits\<close>)

lemma run_connected:
  "staysConnected inputs s \<Longrightarrow> statsTimer s = Some e \<Longrightarrow> e < statsInterval \<Longrightarrow>
     statsEmitted (run inputs s) = statsEmitted s + (e + elapsed inputs) div statsInterval"
proof (induction inputs arbitrary: s e)
  case Nil
  then show ?case by (simp add: elapsed_def)
next
  case (Cons i inputs)
  from Cons.prems(1) have c: "session s = Connected" and r: "staysConnected inputs (step i s)"
    by simp_all
  from r have c': "session (step i s) = Connected" by (cases inputs) simp_all
  let ?e' = "(e + msOf i) mod statsInterval"
  from step_connected[OF c Cons.prems(2) Cons.prems(3) c']
  have t: "statsTimer (step i s) = Some ?e'"
    "statsEmitted (step i s) = statsEmitted s + (e + msOf i) div statsInterval" by simp_all
  have p: "0 < statsInterval" by (simp add: statsInterval_def)
  then have lt: "?e' < statsInterval" by simp
  from Cons.IH[OF r t(1) lt] t(2)
  have "statsEmitted (run (i # inputs) s)
      = statsEmitted s + ((e + msOf i) div statsInterval
          + ((e + msOf i) mod statsInterval + elapsed inputs) div statsInterval)"
    by simp
  also have "\<dots> = statsEmitted s + (e + msOf i + elapsed inputs) div statsInterval"
    using div_step[OF p, of "e + msOf i" "elapsed inputs"] by simp
  finally show ?case by (simp add: elapsed_def add.assoc)
qed

lemma step_not_connected:
  assumes "session s \<noteq> Connected" "i \<noteq> ConnectivityConnected"
  shows "session (step i s) \<noteq> Connected \<and> statsEmitted (step i s) = statsEmitted s"
proof (cases i)
  case (CallDisconnect r)
  then show ?thesis using disconnect_frame[of r s] by simp
next
  case (SetFlag f v)
  then show ?thesis using assms by (simp add: setFlagEnabled_frame statsEmitted_def)
next
  case (SetNumeric p v)
  then show ?thesis using assms by (simp add: setNumericSetting_frame statsEmitted_def)
next
  case (QualityControlOwnershipMessage b)
  then show ?thesis using assms
    by (simp add: onQualityControlOwnership_def setFlagEnabled_frame statsEmitted_def)
next
  case (InitialSettingsMessage st)
  then show ?thesis using assms by (simp add: onInitialSettings_frame)
next
  case (TimePasses m n)
  then show ?thesis using assms advance_not_connected[of s m n] by simp
qed (use assms in \<open>auto simp: handler_defs basic_defs Let_def autoSelect_def statsEmitted_def
        onOffer_def offerExpected_def onWebRtcSdp_def emitConsoleCommand_def reconnectDelay_def
        split: option.splits if_splits\<close>)

lemma step_emits_only_when_connected:
  assumes "session s \<noteq> Connected"
  shows "statsEmitted (step i s) = statsEmitted s"
proof (cases "i = ConnectivityConnected")
  case True
  then show ?thesis
    by (simp add: onConnectivityConnected_def onWebRtcConnected_def dispatchEvent_def
          statsEmitted_def)
next
  case False
  from step_not_connected[OF assms False] show ?thesis by simp
qed

lemma run_not_connected:
  "session s \<noteq> Connected \<Longrightarrow> ConnectivityConnected \<notin> set inputs \<Longrightarrow>
     session (run inputs s) \<noteq> Connected \<and> statsEmitted (run inputs s) = statsEmitted s"
proof (induction inputs arbitrary: s)
  case Nil
  then show ?case by simp
next
  case (Cons i inputs)
  from Cons.prems(2) have n: "i \<noteq> ConnectivityConnected" "ConnectivityConnected \<notin> set inputs"
    by auto
  from step_not_connected[OF Cons.prems(1) n(1)] Cons.IH[OF _ n(2), of "step i s"]
  show ?case by simp
qed

lemma tick_closed:
  assumes "\<not> connectionUp s" "\<not> peerSession s" "session s \<noteq> Connected" "reconnectTimer s = None"
  shows "\<not> connectionUp (tick m s) \<and> \<not> peerSession (tick m s) \<and> session (tick m s) \<noteq> Connected
     \<and> reconnectTimer (tick m s) = None"
  using assms
  by (simp add: tick_def tickStats_def tickReconnect_def statsTick_def split: option.splits)

lemma advance_closed:
  "\<not> connectionUp s \<Longrightarrow> \<not> peerSession s \<Longrightarrow> session s \<noteq> Connected \<Longrightarrow>
   reconnectTimer s = None \<Longrightarrow>
     \<not> connectionUp (advanceTimersByTime m n s) \<and> \<not> peerSession (advanceTimersByTime m n s)
   \<and> session (advanceTimersByTime m n s) \<noteq> Connected
   \<and> reconnectTimer (advanceTimersByTime m n s) = None"
proof (induction n arbitrary: s)
  case 0
  then show ?case by simp
next
  case (Suc n)
  from tick_closed[OF Suc.prems, of m] Suc.IH[of "tick m s"] show ?case by simp
qed

lemma step_closed:
  assumes "\<not> connectionUp s" "\<not> peerSession s" "session s \<noteq> Connected" "reconnectTimer s = None"
    "i \<noteq> CallConnect" "i \<noteq> CallReconnect"
  shows "\<not> connectionUp (step i s) \<and> \<not> peerSession (step i s) \<and> session (step i s) \<noteq> Connected
     \<and> reconnectTimer (step i s) = None \<and> statsEmitted (step i s) = statsEmitted s"
proof (cases i)
  case (CallDisconnect r)
  then show ?thesis using assms disconnect_frame[of r s] by simp
next
  case (SetFlag f v)
  then show ?thesis using assms by (simp add: setFlagEnabled_frame statsEmitted_def)
next
  case (SetNumeric p v)
  then show ?thesis using assms by (simp add: setNumericSetting_frame statsEmitted_def)
next
  case (QualityControlOwnershipMessage b)
  then show ?thesis using assms
    by (simp add: onQualityControlOwnership_def setFlagEnabled_frame statsEmitted_def)
next
  case (InitialSettingsMessage st)
  then show ?thesis using assms by (simp add: onInitialSettings_frame)
next
  case (TimePasses m n)
  then show ?thesis using assms advance_closed[of s m n] advance_not_connected[of s m n]
    by simp
qed (use assms in \<open>auto simp: handler_defs basic_defs Let_def autoSelect_def statsEmitted_def
        onOffer_def offerExpected_def onWebRtcSdp_def emitConsoleCommand_def reconnectDelay_def
        split: option.splits if_splits\<close>)

lemma run_closed:
  "\<not> connectionUp s \<Longrightarrow> \<not> peerSession s \<Longrightarrow> session s \<noteq> Connected \<Longrightarrow>
   reconnectTimer s = None \<Longrightarrow> CallConnect \<notin> set inputs \<Longrightarrow> CallReconnect \<notin> set inputs \<Longrightarrow>
     session (run inputs s) \<noteq> Connected \<and> statsEmitted (run inputs s) = statsEmitted s"
proof (induction inputs arbitrary: s)
  case Nil
  then show ?case by simp
next
  case (Cons i inputs)
  from Cons.prems(5,6) have n: "i \<noteq> CallConnect" "i \<noteq> CallReconnect"
    "CallConnect \<notin> set inputs" "CallReconnect \<notin> set inputs" by auto
  from step_closed[OF Cons.prems(1-4) n(1,2)]
  have t: "\<not> connectionUp (step i s)" "\<not> peerSession (step i s)" "session (step i s) \<noteq> Connected"
    "reconnectTimer (step i s) = None" "statsEmitted (step i s) = statsEmitted s" by simp_all
  from Cons.IH[OF t(1-4) n(3,4)] t(5) show ?case by simp
qed

lemma tick_keeps_connected:
  "session s = Connected \<Longrightarrow> reconnectTimer s = None \<Longrightarrow>
     session (tick m s) = Connected \<and> reconnectTimer (tick m s) = None"
  by (simp add: tick_def tickStats_def tickReconnect_def statsTick_def onVideoStats_def
        Let_def dispatchEvent_def split: option.splits)

lemma advance_keeps_connected:
  "session s = Connected \<Longrightarrow> reconnectTimer s = None \<Longrightarrow>
     session (advanceTimersByTime m n s) = Connected
   \<and> reconnectTimer (advanceTimersByTime m n s) = None"
proof (induction n arbitrary: s)
  case 0
  then show ?case by simp
next
  case (Suc n)
  from tick_keeps_connected[OF Suc.prems, of m] Suc.IH[of "tick m s"] show ?case by simp
qed

lemma entering_connected:
  "peerSession s \<Longrightarrow> session s \<noteq> Connected \<Longrightarrow>
     session (onConnectivityConnected s) = Connected
   \<and> statsTimer (onConnectivityConnected s) = Some 0
   \<and> reconnectTimer (onConnectivityConnected s) = reconnectTimer s
   \<and> statsEmitted (onConnectivityConnected s) = statsEmitted s"
  by (simp add: onConnectivityConnected_def onWebRtcConnected_def dispatchEvent_def
        statsEmitted_def)

text \<open>
  Claim C5. Take a controller with a peer session that is not \<open>Connected\<close>, and let the
  connectivity callback make it \<open>Connected\<close>. Over any inputs during which the session
  stays \<open>Connected\<close> (time passing in any portions, with any calls, messages and callbacks
  in between, a repeated connected callback among them) the number of snapshots emitted is
  the number of elapsed milliseconds divided by 1000: one for each full interval of
  1000 ms. No input of any kind emits a snapshot when it arrives while the session is not
  \<open>Connected\<close>, and from such a session no inputs without a connected callback emit a
  snapshot or make it \<open>Connected\<close>. After \<^verbatim>\<open>disconnect()\<close>, with no reconnect delay
  pending, no inputs without \<^verbatim>\<open>connect()\<close> or \<^verbatim>\<open>reconnect()\<close> emit a snapshot, connected
  callbacks included: emission stops at disconnect and does not resume without a new
  connection.
\<close>

theorem one_snapshot_per_interval_while_connected:
  "(peerSession s \<and> session s \<noteq> Connected \<and> staysConnected inputs (onConnectivityConnected s)
      \<longrightarrow> statsEmitted (run inputs (onConnectivityConnected s))
            = statsEmitted s + elapsed inputs div 1000)
   \<and> (session s \<noteq> Connected \<longrightarrow> statsEmitted (step i s) = statsEmitted s)
   \<and> (session s \<noteq> Connected \<and> ConnectivityConnected \<notin> set inputs
      \<longrightarrow> statsEmitted (run inputs s) = statsEmitted s \<and> session (run inputs s) \<noteq> Connected)
   \<and> (reconnectTimer s = None \<and> CallConnect \<notin> set inputs \<and> CallReconnect \<notin> set inputs
      \<longrightarrow> statsEmitted (run inputs (disconnect reason s)) = statsEmitted s
          \<and> session (run inputs (disconnect reason s)) \<noteq> Connected)"
proof (intro conjI impI)
  assume h: "peerSession s \<and> session s \<noteq> Connected
      \<and> staysConnected inputs (onConnectivityConnected s)"
  then have e: "statsTimer (onConnectivityConnected s) = Some 0"
    "statsEmitted (onConnectivityConnected s) = statsEmitted s"
    using entering_connected[of s] by simp_all
  have "(0::nat) < statsInterval" by (simp add: statsInterval_def)
  from run_connected[OF _ e(1) this, of inputs] h e(2)
  show "statsEmitted (run inputs (onConnectivityConnected s))
            = statsEmitted s + elapsed inputs div 1000"
    by (simp add: statsInterval_def)
next
  assume "session s \<noteq> Connected"
  then show "statsEmitted (step i s) = statsEmitted s"
    by (rule step_emits_only_when_connected)
next
  assume h: "session s \<noteq> Connected \<and> ConnectivityConnected \<notin> set inputs"
  then show "statsEmitted (run inputs s) = statsEmitted s"
    "session (run inputs s) \<noteq> Connected"
    using run_not_connected[of s inputs] by simp_all
next
  assume h: "reconnectTimer s = None \<and> CallConnect \<notin> set inputs \<and> CallReconnect \<notin> set inputs"
  note d = disconnect_frame[of reason s]
  have "session (disconnect reason s) \<noteq> Connected" using d by simp
  from run_closed[OF _ _ this, of inputs] d h
  show "statsEmitted (run inputs (disconnect reason s)) = statsEmitted s"
    "session (run inputs (disconnect reason s)) \<noteq> Connected"
    by simp_all
qed

lemma configuredController_fields:
  "peerSession configuredController \<and> session configuredController = AwaitingStreamerList
   \<and> reconnectTimer configuredController = None \<and> statsEmitted configuredController = 0
   \<and> \<not> wasConnected configuredController \<and> connectionUp configuredController
   \<and> calls configuredController
       = [SetPreferredCodec, ResizePlayerStyle, OpenRendezvousChannel, SendListStreamers,
          CreatePeerSession]
   \<and> dispatched configuredController = []"
  by (simp add: configuredController_def new_defs handler_defs basic_defs statsEmitted_def)

theorem one_snapshot_per_interval_while_connected_witness:
  "peerSession configuredController \<and> session configuredController \<noteq> Connected
   \<and> staysConnected [TimePasses mockMetrics 999, ConnectivityConnected, TimePasses mockMetrics 1001]
        (onConnectivityConnected configuredController)
   \<and> statsEmitted
        (run [TimePasses mockMetrics 999, ConnectivityConnected, TimePasses mockMetrics 1001]
           (onConnectivityConnected configuredController)) = 2
   \<and> statsEmitted (step (TimePasses mockMetrics 5000) configuredController) = 0
   \<and> ConnectivityConnected \<notin> set [TimePasses mockMetrics 5000, SideChannelOpened]
   \<and> statsEmitted (run [TimePasses mockMetrics 5000, SideChannelOpened] configuredController) = 0
   \<and> CallConnect \<notin> set [ConnectivityConnected, TimePasses mockMetrics 5000, ConfigMessage,
                          ConnectivityConnected, TimePasses mockMetrics 5000]
   \<and> CallReconnect \<notin> set [ConnectivityConnected, TimePasses mockMetrics 5000, ConfigMessage,
                          ConnectivityConnected, TimePasses mockMetrics 5000]
   \<and> statsEmitted
        (run [ConnectivityConnected, TimePasses mockMetrics 5000, ConfigMessage,
              ConnectivityConnected, TimePasses mockMetrics 5000]
           (disconnect ''closed'' configuredController)) = 0"
proof -
  note f = configuredController_fields
  let ?c = "onConnectivityConnected configuredController"
  have c: "session ?c = Connected" "reconnectTimer ?c = None"
    using entering_connected[of configuredController] f by simp_all
  let ?c1 = "advanceTimersByTime mockMetrics 999 ?c"
  have c1: "session ?c1 = Connected" "reconnectTimer ?c1 = None"
    using advance_keeps_connected[OF c, of mockMetrics 999] by simp_all
  have c2: "onConnectivityConnected ?c1 = ?c1"
    using c1 by (simp add: onConnectivityConnected_def)
  have c3: "session (advanceTimersByTime mockMetrics 1001 ?c1) = Connected"
    using advance_keeps_connected[OF c1, of mockMetrics 1001] by simp
  have st: "staysConnected
      [TimePasses mockMetrics 999, ConnectivityConnected, TimePasses mockMetrics 1001] ?c"
    using c c1 c2 c3 by simp
  have el: "elapsed [TimePasses mockMetrics 999, ConnectivityConnected, TimePasses mockMetrics 1001]
      = 2000" by (simp add: elapsed_def)
  have a: "statsEmitted
        (run [TimePasses mockMetrics 999, ConnectivityConnected, TimePasses mockMetrics 1001] ?c) = 2"
    using one_snapshot_per_interval_while_connected
      [of configuredController
          "[TimePasses mockMetrics 999, ConnectivityConnected, TimePasses mockMetrics 1001]"]
      f st el by simp
  have z: "statsEmitted (step (TimePasses mockMetrics 5000) configuredController) = 0"
    using one_snapshot_per_interval_while_connected
      [of configuredController _ "TimePasses mockMetrics 5000"] f by simp
  have b: "statsEmitted (run [TimePasses mockMetrics 5000, SideChannelOpened] configuredController) = 0"
    using one_snapshot_per_interval_while_connected
      [of configuredController "[TimePasses mockMetrics 5000, SideChannelOpened]"] f by simp
  have d: "statsEmitted
        (run [ConnectivityConnected, TimePasses mockMetrics 5000, ConfigMessage,
              ConnectivityConnected, TimePasses mockMetrics 5000]
           (disconnect ''closed'' configuredController)) = 0"
    using one_snapshot_per_interval_while_connected
      [of configuredController "[ConnectivityConnected, TimePasses mockMetrics 5000, ConfigMessage,
              ConnectivityConnected, TimePasses mockMetrics 5000]" _ "''closed''"] f by simp
  show ?thesis using f st a z b d by simp
qed

subsection \<open>Reconnecting\<close>

lemma tick_countdown:
  assumes "statsTimer s = None" "reconnectTimer s = Some (Suc (Suc k))"
  shows "statsTimer (tick m s) = None \<and> reconnectTimer (tick m s) = Some (Suc k)
       \<and> calls (tick m s) = calls s \<and> dispatched (tick m s) = dispatched s"
  using assms by (simp add: tick_def tickStats_def tickReconnect_def)

lemma tick_fire:
  assumes "statsTimer s = None" "reconnectTimer s = Some (Suc 0)"
  shows "calls (tick m s) = calls s @ [OpenRendezvousChannel]
       \<and> dispatched (tick m s) = dispatched s @ [WebRtcAutoConnectEvent]"
  using assms
  by (simp add: tick_def tickStats_def tickReconnect_def onReconnectDelayPassed_def
        onWebRtcAutoConnect_def connectToSignallingServer_def basic_defs)

lemma advance_countdown:
  "statsTimer s = None \<Longrightarrow> reconnectTimer s = Some r \<Longrightarrow> n < r \<Longrightarrow>
     calls (advanceTimersByTime m n s) = calls s
   \<and> dispatched (advanceTimersByTime m n s) = dispatched s"
proof (induction n arbitrary: s r)
  case 0
  then show ?case by simp
next
  case (Suc n)
  from Suc.prems(3) obtain k where r: "r = Suc (Suc k)" and nk: "n < Suc k"
    by (cases r; cases "r - 1"; simp)
  from tick_countdown[OF Suc.prems(1) Suc.prems(2)[unfolded r], of m]
  have t: "statsTimer (tick m s) = None" "reconnectTimer (tick m s) = Some (Suc k)"
    "calls (tick m s) = calls s" "dispatched (tick m s) = dispatched s" by simp_all
  from Suc.IH[OF t(1) t(2) nk] t(3) t(4) show ?case by simp
qed

lemma advance_fire:
  "statsTimer s = None \<Longrightarrow> reconnectTimer s = Some (Suc k) \<Longrightarrow>
     calls (advanceTimersByTime m (Suc k) s) = calls s @ [OpenRendezvousChannel]
   \<and> dispatched (advanceTimersByTime m (Suc k) s) = dispatched s @ [WebRtcAutoConnectEvent]"
proof (induction k arbitrary: s)
  case 0
  from tick_fire[OF 0(1) 0(2), of m] show ?case by simp
next
  case (Suc k)
  from tick_countdown[OF Suc.prems(1) Suc.prems(2), of m]
  have t: "statsTimer (tick m s) = None" "reconnectTimer (tick m s) = Some (Suc k)"
    "calls (tick m s) = calls s" "dispatched (tick m s) = dispatched s" by simp_all
  from Suc.IH[OF t(1) t(2)] t(3) t(4) show ?case by simp
qed

lemma reconnect_deferred_fields:
  "wasConnected s \<or> connectionUp s \<Longrightarrow>
     statsTimer (reconnect s) = None \<and> reconnectTimer (reconnect s) = Some 3000
   \<and> calls (reconnect s) = calls s @ [ClosePeerSession, CloseRendezvousChannel]
   \<and> dispatched (reconnect s) = dispatched s"
  by (auto simp: reconnect_def restartStreamAutomatically_def closeSession_def call_def
        reconnectDelay_def)

text \<open>
  Claim C2, as stated: \<^verbatim>\<open>reconnect()\<close> on a controller that has never reached \<open>Connected\<close>
  opens the rendezvous channel immediately without closing anything first. The controller
  of the second reconnect test is built with \<^verbatim>\<open>AutoConnect\<close>: its channel is open, it is in
  \<open>SignalingConnecting\<close> and has never been \<open>Connected\<close>. Its \<^verbatim>\<open>reconnect()\<close> closes the
  session, opens nothing and arms the delay of 3000 ms.
\<close>

theorem reconnect_before_connected_counterexample:
  "\<not> wasConnected (newPixelStreaming autoConnectFlags zeroNumbers)
   \<and> session (newPixelStreaming autoConnectFlags zeroNumbers) = SignalingConnecting
   \<and> calls (newPixelStreaming autoConnectFlags zeroNumbers)
       = [SetPreferredCodec, ResizePlayerStyle, OpenRendezvousChannel]
   \<and> calls (reconnect (newPixelStreaming autoConnectFlags zeroNumbers))
       = [SetPreferredCodec, ResizePlayerStyle, OpenRendezvousChannel,
          ClosePeerSession, CloseRendezvousChannel]
   \<and> reconnectTimer (reconnect (newPixelStreaming autoConnectFlags zeroNumbers)) = Some 3000"
  by (simp add: new_defs handler_defs basic_defs reconnectDelay_def)

text \<open>
  Claim C2, amended. \<^verbatim>\<open>reconnect()\<close> on a controller that has never reached \<open>Connected\<close>
  and has no connection up opens the rendezvous channel immediately, closing nothing and
  arming no delay. On a controller that had reached \<open>Connected\<close>, or that has a connection
  up without having reached it, \<^verbatim>\<open>reconnect()\<close> first closes the existing session; for the
  next 2999 ms nothing more is called and no event is emitted; when 3000 ms have passed the
  channel is opened again and the auto-connect event is emitted.
\<close>

theorem reconnect_immediate_or_after_delay:
  "(\<not> wasConnected s \<and> \<not> connectionUp s \<longrightarrow>
       calls (reconnect s) = calls s @ [OpenRendezvousChannel]
     \<and> reconnectTimer (reconnect s) = reconnectTimer s)
   \<and> (wasConnected s \<or> connectionUp s \<longrightarrow>
       calls (reconnect s) = calls s @ [ClosePeerSession, CloseRendezvousChannel]
     \<and> (\<forall>n<3000. calls (advanceTimersByTime m n (reconnect s)) = calls (reconnect s)
                 \<and> dispatched (advanceTimersByTime m n (reconnect s)) = dispatched s)
     \<and> calls (advanceTimersByTime m 3000 (reconnect s))
         = calls (reconnect s) @ [OpenRendezvousChannel]
     \<and> dispatched (advanceTimersByTime m 3000 (reconnect s))
         = dispatched s @ [WebRtcAutoConnectEvent])"
proof -
  have immediate: "calls (reconnect s) = calls s @ [OpenRendezvousChannel]
     \<and> reconnectTimer (reconnect s) = reconnectTimer s"
    if "\<not> wasConnected s \<and> \<not> connectionUp s"
    using that
    by (simp add: reconnect_def restartStreamAutomatically_def
        connectToSignallingServer_def call_def)
  have deferred: "calls (reconnect s) = calls s @ [ClosePeerSession, CloseRendezvousChannel]
     \<and> (\<forall>n<3000. calls (advanceTimersByTime m n (reconnect s)) = calls (reconnect s)
                 \<and> dispatched (advanceTimersByTime m n (reconnect s)) = dispatched s)
     \<and> calls (advanceTimersByTime m 3000 (reconnect s))
         = calls (reconnect s) @ [OpenRendezvousChannel]
     \<and> dispatched (advanceTimersByTime m 3000 (reconnect s))
         = dispatched s @ [WebRtcAutoConnectEvent]" if w: "wasConnected s \<or> connectionUp s"
  proof -
    note f = reconnect_deferred_fields[OF w]
    have wait: "calls (advanceTimersByTime m n (reconnect s)) = calls (reconnect s)
        \<and> dispatched (advanceTimersByTime m n (reconnect s)) = dispatched s"
      if "n < 3000" for n
      using advance_countdown[of "reconnect s" 3000 n m] f that by simp
    have e: "Suc 2999 = (3000::nat)" by simp
    have fire: "calls (advanceTimersByTime m 3000 (reconnect s))
         = calls (reconnect s) @ [OpenRendezvousChannel]
       \<and> dispatched (advanceTimersByTime m 3000 (reconnect s))
         = dispatched s @ [WebRtcAutoConnectEvent]"
      using advance_fire[of "reconnect s" 2999 m, unfolded e] f by simp
    show ?thesis using f wait fire by blast
  qed
  show ?thesis using immediate deferred by blast
qed

lemma connected_then_disconnected:
  "wasConnected (disconnect ''closed'' (onConnectivityConnected configuredController))
   \<and> \<not> connectionUp (disconnect ''closed'' (onConnectivityConnected configuredController))
   \<and> calls (disconnect ''closed'' (onConnectivityConnected configuredController))
       = [SetPreferredCodec, ResizePlayerStyle, OpenRendezvousChannel, SendListStreamers,
          CreatePeerSession, ClosePeerSession, CloseRendezvousChannel]"
proof -
  let ?c = "onConnectivityConnected configuredController"
  have c: "wasConnected ?c" "calls ?c = calls configuredController"
    using configuredController_fields
    by (simp_all add: onConnectivityConnected_def onWebRtcConnected_def dispatchEvent_def)
  let ?d = "(closeSession ?c)\<lparr>session := Disconnected\<rparr>"
  have d: "wasConnected ?d" "\<not> connectionUp ?d"
    "calls ?d = calls configuredController @ [ClosePeerSession, CloseRendezvousChannel]"
    using c by (simp_all add: closeSession_def call_def)
  have w: "wasConnected (onDisconnect ''closed'' ?d) = wasConnected ?d"
    by (simp add: onDisconnect_def Let_def dispatchEvent_def split: prod.splits)
  show ?thesis using d w onDisconnect_frame[of "''closed''" ?d] configuredController_fields
    by (simp add: disconnect_def close_def)
qed

theorem reconnect_immediate_or_after_delay_witness:
  "\<not> wasConnected (newPixelStreaming noFlags zeroNumbers)
   \<and> \<not> connectionUp (newPixelStreaming noFlags zeroNumbers)
   \<and> calls (reconnect (newPixelStreaming noFlags zeroNumbers))
       = [SetPreferredCodec, ResizePlayerStyle, OpenRendezvousChannel]
   \<and> connectionUp (newPixelStreaming autoConnectFlags zeroNumbers)
   \<and> calls (advanceTimersByTime mockMetrics 2999
        (reconnect (newPixelStreaming autoConnectFlags zeroNumbers)))
       = [SetPreferredCodec, ResizePlayerStyle, OpenRendezvousChannel,
          ClosePeerSession, CloseRendezvousChannel]
   \<and> calls (advanceTimersByTime mockMetrics 3000
        (reconnect (newPixelStreaming autoConnectFlags zeroNumbers)))
       = [SetPreferredCodec, ResizePlayerStyle, OpenRendezvousChannel,
          ClosePeerSession, CloseRendezvousChannel, OpenRendezvousChannel]
   \<and> dispatched (advanceTimersByTime mockMetrics 3000
        (reconnect (newPixelStreaming autoConnectFlags zeroNumbers)))
       = [WebRtcAutoConnectEvent, WebRtcAutoConnectEvent]
   \<and> wasConnected (disconnect ''closed'' (onConnectivityConnected configuredController))
   \<and> \<not> connectionUp (disconnect ''closed'' (onConnectivityConnected configuredController))
   \<and> calls (advanceTimersByTime mockMetrics 2999
        (reconnect (disconnect ''closed'' (onConnectivityConnected configuredController))))
       = [SetPreferredCodec, ResizePlayerStyle, OpenRendezvousChannel, SendListStreamers,
          CreatePeerSession, ClosePeerSession, CloseRendezvousChannel,
          ClosePeerSession, CloseRendezvousChannel]
   \<and> calls (advanceTimersByTime mockMetrics 3000
        (reconnect (disconnect ''closed'' (onConnectivityConnected configuredController))))
       = [SetPreferredCodec, ResizePlayerStyle, OpenRendezvousChannel, SendListStreamers,
          CreatePeerSession, ClosePeerSession, CloseRendezvousChannel,
          ClosePeerSession, CloseRendezvousChannel, OpenRendezvousChannel]"
proof -
  have d: "\<not> wasConnected (newPixelStreaming noFlags zeroNumbers)"
    "\<not> connectionUp (newPixelStreaming noFlags zeroNumbers)"
    "calls (newPixelStreaming noFlags zeroNumbers) = [SetPreferredCodec, ResizePlayerStyle]"
    by (simp_all add: new_defs basic_defs)
  have u: "connectionUp (newPixelStreaming autoConnectFlags zeroNumbers)"
    "calls (newPixelStreaming autoConnectFlags zeroNumbers)
       = [SetPreferredCodec, ResizePlayerStyle, OpenRendezvousChannel]"
    "dispatched (newPixelStreaming autoConnectFlags zeroNumbers) = [WebRtcAutoConnectEvent]"
    by (simp_all add: new_defs handler_defs basic_defs)
  have n: "(2999::nat) < 3000" by simp
  show ?thesis
    using d u n connected_then_disconnected
      reconnect_immediate_or_after_delay [of "newPixelStreaming noFlags zeroNumbers"]
      reconnect_immediate_or_after_delay [of "newPixelStreaming autoConnectFlags zeroNumbers"
        mockMetrics]
      reconnect_immediate_or_after_delay
        [of "disconnect ''closed'' (onConnectivityConnected configuredController)" mockMetrics]
    by simp
qed

subsection \<open>Streamer lists\<close>

lemma onStreamerList_fields:
  "dispatched (onStreamerList ids s)
     = dispatched s @ [StreamerListMessageEvent ids (if length ids = 1 then Some (hd ids) else None)]
   \<and> calls (onStreamerList ids s)
     = calls s @ (if length ids = 1 then [SendSubscribe (hd ids)] else [])
   \<and> streamerDirectory (onStreamerList ids s) = ids"
  by (simp add: onStreamerList_def autoSelect_def Let_def basic_defs)

lemma run_append: "run (xs @ ys) s = run ys (run xs s)"
  by (induction xs arbitrary: s) simp_all

lemma run_streamer_lists:
  "dispatched (run (map StreamerListMessage idLists) s)
     = dispatched s @ map (\<lambda>ids. StreamerListMessageEvent ids
                                 (if length ids = 1 then Some (hd ids) else None)) idLists
   \<and> calls (run (map StreamerListMessage idLists) s)
     = calls s @ concat (map (\<lambda>ids. if length ids = 1 then [SendSubscribe (hd ids)] else [])
                           idLists)"
proof (induction idLists arbitrary: s)
  case Nil
  then show ?case by simp
next
  case (Cons ids idLists)
  show ?case using Cons.IH[of "onStreamerList ids s"] onStreamerList_fields[of ids s]
    by simp
qed

text \<open>
  Claim C3. Take any sequence of \<open>StreamerList\<close> messages, \<open>idLists\<close> followed by the most
  recent list \<open>ids\<close>, received in any state. Processing the most recent list emits one
  discovery event that carries \<open>ids\<close> in full, with the single identifier as the
  auto-selected one when \<open>ids\<close> has exactly one entry and none otherwise; it sends
  \<open>Subscribe\<close> for that identifier in the first case and sends nothing in the second, so a
  \<open>Subscribe\<close> is sent if and only if the most recent list has exactly one identifier. The
  directory is then \<open>ids\<close>, and every earlier list has had its own event with its full list.
\<close>

theorem streamer_list_auto_selects_single_streamer:
  "dispatched (run (map StreamerListMessage (idLists @ [ids])) s)
     = dispatched (run (map StreamerListMessage idLists) s)
       @ [StreamerListMessageEvent ids (if length ids = 1 then Some (hd ids) else None)]
   \<and> calls (run (map StreamerListMessage (idLists @ [ids])) s)
     = calls (run (map StreamerListMessage idLists) s)
       @ (if length ids = 1 then [SendSubscribe (hd ids)] else [])
   \<and> ((\<exists>streamerId. SendSubscribe streamerId
          \<in> set (drop (length (calls (run (map StreamerListMessage idLists) s)))
                    (calls (run (map StreamerListMessage (idLists @ [ids])) s))))
        = (length ids = 1))
   \<and> streamerDirectory (run (map StreamerListMessage (idLists @ [ids])) s) = ids
   \<and> dispatched (run (map StreamerListMessage idLists) s)
     = dispatched s @ map (\<lambda>l. StreamerListMessageEvent l
                                 (if length l = 1 then Some (hd l) else None)) idLists"
  using onStreamerList_fields[of ids "run (map StreamerListMessage idLists) s"]
    run_streamer_lists[of idLists s]
  by (simp add: run_append)

subsection \<open>Offers\<close>












subsection \<open>Console commands\<close>









end
